theory Spec2Isabelle
  imports Complex_Main "HOL-Library.AList"
begin

section \<open>Python values, exceptions and strings\<close>

text \<open>
  The agent and its math tool are Python. Values that can reach the tool are the ones
  \<^verbatim>\<open>json.loads\<close> produces (None, bool, int, float, str, list, dict) and the ones
  \<^verbatim>\<open>eval\<close> can return on the whitelisted alphabet (additionally a tuple, Ellipsis, a
  complex number). Integers are unbounded. A float is kept as data (mantissa and binary
  exponent, or a special value); its arithmetic and its printing are not modelled: they
  are fields of the \<open>runtime\<close> record below, and every theorem holds for any behaviour
  of them. A string is a list of characters; the character classes below are the ASCII
  ones. A dict is an association list with distinct keys, in insertion order.
\<close>

datatype exc_class =
  KeyError | TypeError | ValueError | IndexError | ZeroDivisionError | OverflowError
  | SyntaxError | JSONDecodeError | APIError | OtherException

text \<open>An exception: its class and \<^verbatim>\<open>str(e)\<close>. Every class above derives from Exception.\<close>

datatype py_exc = Exc exc_class string

fun exc_msg :: "py_exc \<Rightarrow> string" where
  "exc_msg (Exc c m) = m"

datatype pyfloat = FFinite int int | FInf bool | FNaN

datatype pyval =
  PNone | PBool bool | PInt int | PFloat pyfloat | PStr string
  | PList "pyval list" | PDict "(string \<times> pyval) list"
  | PTuple "pyval list" | PEllipsis | PComplex pyfloat pyfloat

text \<open>Sequencing of calls that may raise: the first exception propagates.\<close>

fun and_then :: "py_exc + 'a \<Rightarrow> ('a \<Rightarrow> py_exc + 'b) \<Rightarrow> py_exc + 'b" where
  "and_then (Inl e) f = Inl e"
| "and_then (Inr x) f = f x"

text \<open>
  The builtins whose results are floating point, implementation text or a whole
  language of their own are parameters of the model.
\<close>

record runtime =
  rt_float :: "pyval \<Rightarrow> py_exc + pyfloat"
  rt_sqrt :: "pyfloat \<Rightarrow> py_exc + pyfloat"
  rt_int_of_float :: "pyfloat \<Rightarrow> py_exc + int"
  rt_str :: "pyval \<Rightarrow> string"
  rt_repr :: "string \<Rightarrow> string"
  rt_eval :: "string \<Rightarrow> py_exc + pyval"
  rt_json_loads :: "string \<Rightarrow> py_exc + pyval"

subsection \<open>\<^verbatim>\<open>str.strip\<close>\<close>

definition py_isspace :: "char \<Rightarrow> bool" where
  "py_isspace c = (c \<in> set [CHR 0x09, CHR 0x0A, CHR 0x0B, CHR 0x0C, CHR 0x0D,
                              CHR 0x1C, CHR 0x1D, CHR 0x1E, CHR 0x1F, CHR 0x20])"

definition py_strip :: "string \<Rightarrow> string" where
  "py_strip s = rev (dropWhile py_isspace (rev (dropWhile py_isspace s)))"

subsection \<open>\<^verbatim>\<open>str\<close> and \<^verbatim>\<open>int\<close> on integers\<close>

definition digit_char :: "nat \<Rightarrow> char" where
  "digit_char d = ''0123456789'' ! d"

definition is_digit :: "char \<Rightarrow> bool" where
  "is_digit c = (c \<in> set ''0123456789'')"

definition digit_val :: "char \<Rightarrow> nat" where
  "digit_val c = (case map_of (zip ''0123456789'' [0, 1, 2, 3, 4, 5, 6, 7, 8, 9]) c of
                    Some d \<Rightarrow> d | None \<Rightarrow> 0)"

fun str_nat :: "nat \<Rightarrow> string" where
  "str_nat n = (if n < 10 then [digit_char n] else str_nat (n div 10) @ [digit_char (n mod 10)])"

declare str_nat.simps [simp del]

definition str_int :: "int \<Rightarrow> string" where
  "str_int n = (if n < 0 then CHR ''-'' # str_nat (nat (- n)) else str_nat (nat n))"

definition decimal_value :: "string \<Rightarrow> nat" where
  "decimal_value ds = foldl (\<lambda>acc c. 10 * acc + digit_val c) 0 ds"

text \<open>
  The digit part of an integer literal as \<^verbatim>\<open>int()\<close> accepts it: digits, with single
  underscores between digits.
\<close>

fun int_literal_ok :: "string \<Rightarrow> bool" where
  "int_literal_ok [] = False"
| "int_literal_ok [c] = is_digit c"
| "int_literal_ok (c # d # r) =
     (is_digit c \<and> (if d = CHR ''_'' then int_literal_ok r else int_literal_ok (d # r)))"

definition py_int_str :: "runtime \<Rightarrow> string \<Rightarrow> py_exc + int" where
  "py_int_str rt s =
     (let t = py_strip s;
          neg = (t \<noteq> [] \<and> hd t = CHR ''-'');
          ds = (if t \<noteq> [] \<and> (hd t = CHR ''-'' \<or> hd t = CHR ''+'') then tl t else t)
      in if int_literal_ok ds
         then Inr ((if neg then - 1 else 1) * int (decimal_value (filter (\<lambda>c. c \<noteq> CHR ''_'') ds)))
         else Inl (Exc ValueError (''invalid literal for int() with base 10: '' @ rt_repr rt s)))"

text \<open>\<^verbatim>\<open>int(x)\<close> on any value: a bool is an int, a float is truncated, a str is parsed.\<close>

fun py_int :: "runtime \<Rightarrow> pyval \<Rightarrow> py_exc + int" where
  "py_int rt (PInt n) = Inr n"
| "py_int rt (PBool b) = Inr (if b then 1 else 0)"
| "py_int rt (PFloat f) = rt_int_of_float rt f"
| "py_int rt (PStr s) = py_int_str rt s"
| "py_int rt v =
     Inl (Exc TypeError ''int() argument must be a string, a bytes-like object or a real number'')"

fun py_str :: "runtime \<Rightarrow> pyval \<Rightarrow> string" where
  "py_str rt (PInt n) = str_int n"
| "py_str rt (PStr s) = s"
| "py_str rt PNone = ''None''"
| "py_str rt (PBool b) = (if b then ''True'' else ''False'')"
| "py_str rt v = rt_str rt v"

definition math_factorial :: "int \<Rightarrow> py_exc + int" where
  "math_factorial n =
     (if n < 0 then Inl (Exc ValueError ''factorial() not defined for negative values'')
      else Inr (fact (nat n)))"

subsection \<open>Subscripting and \<^verbatim>\<open>set(x) <= allowed\<close>\<close>

text \<open>\<^verbatim>\<open>x[k]\<close> with a string key: a dict looks the key up, anything else raises TypeError.\<close>

fun subscript :: "runtime \<Rightarrow> pyval \<Rightarrow> string \<Rightarrow> py_exc + pyval" where
  "subscript rt (PDict kvs) k =
     (case map_of kvs k of None \<Rightarrow> Inl (Exc KeyError (rt_repr rt k)) | Some v \<Rightarrow> Inr v)"
| "subscript rt (PStr s) k = Inl (Exc TypeError ''string indices must be integers'')"
| "subscript rt (PList xs) k = Inl (Exc TypeError ''list indices must be integers or slices, not str'')"
| "subscript rt (PTuple xs) k = Inl (Exc TypeError ''tuple indices must be integers or slices, not str'')"
| "subscript rt v k = Inl (Exc TypeError ''object is not subscriptable'')"

definition allowed :: "char list" where
  "allowed = ''0123456789+-*/(). ''"

fun hashable :: "pyval \<Rightarrow> bool" where
  "hashable (PList xs) = False"
| "hashable (PDict kvs) = False"
| "hashable (PTuple xs) = list_all hashable xs"
| "hashable v = True"

text \<open>An element of the set of allowed characters is a one-character string.\<close>

fun in_allowed :: "pyval \<Rightarrow> bool" where
  "in_allowed (PStr [c]) = (c \<in> set allowed)"
| "in_allowed v = False"

text \<open>
  \<^verbatim>\<open>set(expr) <= allowed\<close>: a str is iterated by characters, a list or tuple by elements
  (which must be hashable), a dict by keys; any other value is not iterable.
\<close>

fun set_within_allowed :: "pyval \<Rightarrow> py_exc + bool" where
  "set_within_allowed (PStr s) = Inr (set s \<subseteq> set allowed)"
| "set_within_allowed (PList xs) =
     (if list_all hashable xs then Inr (list_all in_allowed xs)
      else Inl (Exc TypeError ''unhashable type''))"
| "set_within_allowed (PTuple xs) =
     (if list_all hashable xs then Inr (list_all in_allowed xs)
      else Inl (Exc TypeError ''unhashable type''))"
| "set_within_allowed (PDict kvs) = Inr (list_all (\<lambda>kv. in_allowed (PStr (fst kv))) kvs)"
| "set_within_allowed v = Inl (Exc TypeError ''object is not iterable'')"

section \<open>\<^verbatim>\<open>eval\<close> on integer arithmetic\<close>

text \<open>
  \<^verbatim>\<open>eval(expr, {"__builtins__": {}}, {})\<close> runs Python's expression language. The part of
  it modelled here is integer arithmetic: decimal integer literals, unary and binary
  \<^verbatim>\<open>+\<close> and \<^verbatim>\<open>-\<close>, \<^verbatim>\<open>*\<close>, \<^verbatim>\<open>/\<close>, parentheses and spaces, with Python's grammar
  (\<^verbatim>\<open>sum\<close>, \<^verbatim>\<open>term\<close>, \<^verbatim>\<open>factor\<close>, \<^verbatim>\<open>atom\<close>) and left-to-right evaluation.
  \<open>arith_eval\<close> answers \<open>None\<close> outside that part: on a string that is not of this
  grammar (a float literal, \<^verbatim>\<open>**\<close>, \<^verbatim>\<open>//\<close>, a call, a syntax error), and as soon as
  a true division with a non-zero divisor would produce a float. There the runtime's
  \<open>rt_eval\<close> answers. Limits of an implementation (nesting depth, digits of a literal,
  memory) are not modelled.
\<close>

datatype token = TNum nat | TPlus | TMinus | TStar | TSlash | TLParen | TRParen

datatype binop = Add | Sub | Mul | Div

datatype aexp = Num nat | Pos aexp | Neg aexp | BinOp binop aexp aexp

text \<open>A decimal integer literal has no leading zero, unless it is all zeros.\<close>

definition decinteger_ok :: "string \<Rightarrow> bool" where
  "decinteger_ok ds = (ds \<noteq> [] \<and> (hd ds \<noteq> CHR ''0'' \<or> list_all (\<lambda>c. c = CHR ''0'') ds))"

function tokenize :: "string \<Rightarrow> token list option" where
  "tokenize [] = Some []"
| "tokenize (c # cs) =
     (if c = CHR '' '' then tokenize cs
      else if is_digit c then
        (let ds = c # takeWhile is_digit cs; rest = dropWhile is_digit cs
         in if \<not> decinteger_ok ds \<or> (rest \<noteq> [] \<and> hd rest = CHR ''.'') then None
            else map_option ((#) (TNum (decimal_value ds))) (tokenize rest))
      else if c = CHR ''+'' then map_option ((#) TPlus) (tokenize cs)
      else if c = CHR ''-'' then map_option ((#) TMinus) (tokenize cs)
      else if c = CHR ''('' then map_option ((#) TLParen) (tokenize cs)
      else if c = CHR '')'' then map_option ((#) TRParen) (tokenize cs)
      else if c = CHR ''*'' then
        (if cs \<noteq> [] \<and> hd cs = CHR ''*'' then None else map_option ((#) TStar) (tokenize cs))
      else if c = CHR ''/'' then
        (if cs \<noteq> [] \<and> hd cs = CHR ''/'' then None else map_option ((#) TSlash) (tokenize cs))
      else None)"
  by pat_completeness auto
termination
  by (relation "measure length") (auto simp: length_dropWhile_le less_Suc_eq_le)

text \<open>
  Recursive descent with fuel: every call spends one unit, and \<open>None\<close> (no answer from
  this model) is also the result when the fuel runs out.
\<close>

fun parse_sum :: "nat \<Rightarrow> token list \<Rightarrow> (aexp \<times> token list) option"
  and sum_rest :: "nat \<Rightarrow> aexp \<Rightarrow> token list \<Rightarrow> (aexp \<times> token list) option"
  and parse_term :: "nat \<Rightarrow> token list \<Rightarrow> (aexp \<times> token list) option"
  and term_rest :: "nat \<Rightarrow> aexp \<Rightarrow> token list \<Rightarrow> (aexp \<times> token list) option"
  and parse_factor :: "nat \<Rightarrow> token list \<Rightarrow> (aexp \<times> token list) option"
where
  "parse_sum 0 ts = None"
| "parse_sum (Suc n) ts =
     (case parse_term n ts of None \<Rightarrow> None | Some (a, r) \<Rightarrow> sum_rest n a r)"
| "sum_rest 0 a ts = None"
| "sum_rest (Suc n) a (TPlus # ts) =
     (case parse_term n ts of None \<Rightarrow> None | Some (b, r) \<Rightarrow> sum_rest n (BinOp Add a b) r)"
| "sum_rest (Suc n) a (TMinus # ts) =
     (case parse_term n ts of None \<Rightarrow> None | Some (b, r) \<Rightarrow> sum_rest n (BinOp Sub a b) r)"
| "sum_rest (Suc n) a ts = Some (a, ts)"
| "parse_term 0 ts = None"
| "parse_term (Suc n) ts =
     (case parse_factor n ts of None \<Rightarrow> None | Some (a, r) \<Rightarrow> term_rest n a r)"
| "term_rest 0 a ts = None"
| "term_rest (Suc n) a (TStar # ts) =
     (case parse_factor n ts of None \<Rightarrow> None | Some (b, r) \<Rightarrow> term_rest n (BinOp Mul a b) r)"
| "term_rest (Suc n) a (TSlash # ts) =
     (case parse_factor n ts of None \<Rightarrow> None | Some (b, r) \<Rightarrow> term_rest n (BinOp Div a b) r)"
| "term_rest (Suc n) a ts = Some (a, ts)"
| "parse_factor 0 ts = None"
| "parse_factor (Suc n) (TPlus # ts) =
     (case parse_factor n ts of None \<Rightarrow> None | Some (a, r) \<Rightarrow> Some (Pos a, r))"
| "parse_factor (Suc n) (TMinus # ts) =
     (case parse_factor n ts of None \<Rightarrow> None | Some (a, r) \<Rightarrow> Some (Neg a, r))"
| "parse_factor (Suc n) (TNum k # ts) = Some (Num k, ts)"
| "parse_factor (Suc n) (TLParen # ts) =
     (case parse_sum n ts of Some (a, TRParen # r) \<Rightarrow> Some (a, r) | _ \<Rightarrow> None)"
| "parse_factor (Suc n) ts = None"

text \<open>
  Integer operators. True division raises on a zero divisor; otherwise its result is a
  float, which this model does not compute.
\<close>

fun apply_binop :: "binop \<Rightarrow> int \<Rightarrow> int \<Rightarrow> (py_exc + int) option" where
  "apply_binop Add x y = Some (Inr (x + y))"
| "apply_binop Sub x y = Some (Inr (x - y))"
| "apply_binop Mul x y = Some (Inr (x * y))"
| "apply_binop Div x y =
     (if y = 0 then Some (Inl (Exc ZeroDivisionError ''division by zero'')) else None)"

fun eval_aexp :: "aexp \<Rightarrow> (py_exc + int) option" where
  "eval_aexp (Num k) = Some (Inr (int k))"
| "eval_aexp (Pos a) = eval_aexp a"
| "eval_aexp (Neg a) =
     (case eval_aexp a of Some (Inr x) \<Rightarrow> Some (Inr (- x)) | r \<Rightarrow> r)"
| "eval_aexp (BinOp f a b) =
     (case eval_aexp a of
        Some (Inr x) \<Rightarrow>
          (case eval_aexp b of Some (Inr y) \<Rightarrow> apply_binop f x y | r \<Rightarrow> r)
      | r \<Rightarrow> r)"

definition arith_eval :: "string \<Rightarrow> (py_exc + pyval) option" where
  "arith_eval s =
     (case tokenize s of
        None \<Rightarrow> None
      | Some ts \<Rightarrow>
          (case parse_sum (4 * length ts + 4) ts of
             Some (a, []) \<Rightarrow> map_option (map_sum id PInt) (eval_aexp a)
           | _ \<Rightarrow> None))"

text \<open>The builtin \<^verbatim>\<open>eval\<close>: its argument must be a string.\<close>

fun py_eval :: "runtime \<Rightarrow> pyval \<Rightarrow> py_exc + pyval" where
  "py_eval rt (PStr s) = (case arith_eval s of Some r \<Rightarrow> r | None \<Rightarrow> rt_eval rt s)"
| "py_eval rt v = Inl (Exc TypeError ''eval() arg 1 must be a string, bytes or code object'')"

section \<open>The math tool (\<^verbatim>\<open>src/tools/math_tool.py\<close>)\<close>

text \<open>\<^verbatim>\<open>try: return body  except Exception as e: return f"Error: {e}"\<close>\<close>

fun try_except :: "py_exc + string \<Rightarrow> string" where
  "try_except (Inr s) = s"
| "try_except (Inl e) = ''Error: '' @ exc_msg e"

text \<open>
  The payload is whatever the caller passes (in the agent: the decoded argument
  document of a tool call). The two subscripts and the set comparison stand outside
  every \<^verbatim>\<open>try\<close>; what they raise reaches the caller.
\<close>

definition evaluate_math :: "runtime \<Rightarrow> pyval \<Rightarrow> py_exc + string" where
  "evaluate_math rt payload =
     and_then (subscript rt payload ''expression'') (\<lambda>expr.
     and_then (subscript rt payload ''mode'') (\<lambda>mode.
       if mode = PStr ''sqrt'' then
         Inr (try_except
           (and_then (rt_float rt expr) (\<lambda>x.
            and_then (rt_sqrt rt x) (\<lambda>y. Inr (py_str rt (PFloat y))))))
       else if mode = PStr ''factorial'' then
         Inr (try_except
           (and_then (py_int rt expr) (\<lambda>n.
              if n < 0 \<or> n > 10000 then Inr ''Error: n out of range''
              else and_then (math_factorial n) (\<lambda>f. Inr (py_str rt (PInt f))))))
       else if mode = PStr ''eval'' then
         and_then (set_within_allowed expr) (\<lambda>ok.
           if \<not> ok then Inr ''Error: disallowed characters''
           else Inr (try_except (and_then (py_eval rt expr) (\<lambda>v. Inr (py_str rt v)))))
       else Inr ''Error: unknown mode''))"

section \<open>Conversation memory and the agent (\<^verbatim>\<open>src/agent/core.py\<close>)\<close>

subsection \<open>Data\<close>

text \<open>A turn of the memory buffer: the dict \<^verbatim>\<open>{"role": role, "content": content}\<close>.\<close>

record turn =
  role :: string
  content :: string

record memory =
  turns :: "turn list"

text \<open>A tool call of a response: \<^verbatim>\<open>call.id\<close>, \<^verbatim>\<open>call.function.name\<close>, \<^verbatim>\<open>call.function.arguments\<close>.\<close>

record tool_call =
  call_id :: string
  function_name :: string
  function_arguments :: pyval

text \<open>
  The three shapes of message dict the agent builds: role and content; a tool result
  (\<^verbatim>\<open>tool_call_id\<close>, \<^verbatim>\<open>name\<close>, \<^verbatim>\<open>content\<close>); the assistant turn with content None
  that carries the tool calls.
\<close>

datatype message =
  Message string string
  | ToolResult string string string
  | AssistantToolCalls "tool_call list"

record tool_spec =
  name :: string
  description :: string
  parameters :: pyval
  handler :: "pyval \<Rightarrow> py_exc + string"

record tool_def =
  td_name :: string
  td_description :: string
  td_parameters :: pyval

record settings =
  api_key :: string
  model_default :: string
  model_fast :: string
  model_tiny :: string

text \<open>The keyword arguments of \<^verbatim>\<open>client.chat.completions.create\<close>.\<close>

record request =
  model :: string
  messages :: "message list"
  tools_offered :: "tool_def list option"
  tool_choice :: "string option"
  temperature :: rat

text \<open>The message of a choice of a response: \<^verbatim>\<open>message.content\<close>, \<^verbatim>\<open>message.tool_calls\<close>.\<close>

record chat_message =
  msg_content :: "string option"
  msg_tool_calls :: "tool_call list option"

text \<open>
  The completion service is outside the program. It is a parameter: given the requests
  it has received so far and the present one, it raises or answers with the messages of
  its choices. Any deterministic service, with whatever state, is such a function; the
  agent record keeps the requests sent, which also makes them observable.
\<close>

type_synonym client = "request list \<Rightarrow> request \<Rightarrow> py_exc + chat_message list"

record agent =
  settings :: settings
  memory :: memory
  tools :: "(string \<times> tool_spec) list"
  requests_sent :: "request list"

subsection \<open>Memory\<close>

definition add :: "memory \<Rightarrow> string \<Rightarrow> string \<Rightarrow> memory" where
  "add m r c = m\<lparr>turns := turns m @ [\<lparr>role = r, content = c\<rparr>]\<rparr>"

definition as_messages :: "memory \<Rightarrow> message list" where
  "as_messages m = map (\<lambda>t. Message (role t) (content t)) (turns m)"

subsection \<open>Agent\<close>

definition register_tool :: "agent \<Rightarrow> tool_spec \<Rightarrow> agent" where
  "register_tool ag tool = ag\<lparr>tools := AList.update (name tool) tool (tools ag)\<rparr>"

definition evaluate_math_spec :: "runtime \<Rightarrow> tool_spec" where
  "evaluate_math_spec rt =
     \<lparr>name = ''evaluate_math'',
      description = ''Safely evaluate arithmetic, sqrt, or factorial.'',
      parameters = PDict
        [(''type'', PStr ''object''),
         (''properties'', PDict
            [(''expression'', PDict [(''type'', PStr ''string'')]),
             (''mode'', PDict [(''type'', PStr ''string''),
                               (''enum'', PList [PStr ''eval'', PStr ''sqrt'', PStr ''factorial''])])]),
         (''required'', PList [PStr ''expression'', PStr ''mode''])],
      handler = (\<lambda>args. evaluate_math rt args)\<rparr>"

text \<open>\<^verbatim>\<open>Agent.__init__\<close>: an empty memory, and the math tool registered.\<close>

definition new_agent :: "runtime \<Rightarrow> settings \<Rightarrow> agent" where
  "new_agent rt st =
     register_tool \<lparr>settings = st, memory = \<lparr>turns = []\<rparr>, tools = [], requests_sent = []\<rparr>
       (evaluate_math_spec rt)"

definition create :: "client \<Rightarrow> agent \<Rightarrow> request \<Rightarrow> (py_exc + chat_message list) \<times> agent" where
  "create api ag req = (api (requests_sent ag) req, ag\<lparr>requests_sent := requests_sent ag @ [req]\<rparr>)"

text \<open>\<^verbatim>\<open>resp.choices[0].message\<close>\<close>

fun first_choice :: "chat_message list \<Rightarrow> py_exc + chat_message" where
  "first_choice [] = Inl (Exc IndexError ''list index out of range'')"
| "first_choice (m # ms) = Inr m"

text \<open>\<^verbatim>\<open>(message.content or "").strip()\<close>\<close>

definition content_text :: "chat_message \<Rightarrow> string" where
  "content_text m = py_strip (case msg_content m of None \<Rightarrow> [] | Some c \<Rightarrow> c)"

definition propose_prompt :: string where
  "propose_prompt =
     ''Propose one difficult, precise question that tests reasoning ability. '' @
     ''Output only the question text'' @ [CHR 0xE2, CHR 0x80, CHR 0x94] @ ''no preamble or answer.''"

definition propose_question :: "client \<Rightarrow> agent \<Rightarrow> (py_exc + string) \<times> agent" where
  "propose_question api ag =
     (let (resp, ag1) = create api ag
            \<lparr>model = model_fast (settings ag), messages = [Message ''user'' propose_prompt],
             tools_offered = None, tool_choice = None, temperature = 7 / 10\<rparr>
      in case and_then resp first_choice of
           Inl e \<Rightarrow> (Inl e, ag1)
         | Inr m \<Rightarrow>
             (let question = content_text m
              in (Inr question,
                  ag1\<lparr>memory := add (memory ag1) ''user'' (''Question to solve: '' @ question)\<rparr>)))"

definition sys :: string where
  "sys = ''You are a precise problem solver. '' @
         ''Use tools when arithmetic is nontrivial. '' @
         ''Return a final answer with a short explanation, no hidden reasoning steps.''"

definition tool_defs :: "agent \<Rightarrow> tool_def list" where
  "tool_defs ag =
     map (\<lambda>kv. \<lparr>td_name = name (snd kv), td_description = description (snd kv),
                td_parameters = parameters (snd kv)\<rparr>) (tools ag)"

definition initial_messages :: "agent \<Rightarrow> string \<Rightarrow> message list" where
  "initial_messages ag question =
     [Message ''system'' sys] @ as_messages (memory ag) @ [Message ''user'' question]"

definition first_request :: "agent \<Rightarrow> string \<Rightarrow> request" where
  "first_request ag question =
     \<lparr>model = model_default (settings ag), messages = initial_messages ag question,
      tools_offered = Some (tool_defs ag), tool_choice = Some ''auto'', temperature = 2 / 10\<rparr>"

text \<open>The body of the dispatch loop for one call, up to the handler's result.\<close>

definition decode_arguments :: "runtime \<Rightarrow> pyval \<Rightarrow> py_exc + pyval" where
  "decode_arguments rt args = (case args of PStr s \<Rightarrow> rt_json_loads rt s | _ \<Rightarrow> Inr args)"

definition run_call :: "runtime \<Rightarrow> (string \<times> tool_spec) list \<Rightarrow> tool_call \<Rightarrow> py_exc + string" where
  "run_call rt tls call =
     and_then (decode_arguments rt (function_arguments call)) (\<lambda>parsed.
       case map_of tls (function_name call) of
         None \<Rightarrow> Inl (Exc KeyError (rt_repr rt (function_name call)))
       | Some spec \<Rightarrow> handler spec parsed)"

text \<open>
  The loop over \<^verbatim>\<open>msg.tool_calls\<close>: each result is appended to the local message list;
  an exception leaves the loop and the function.
\<close>

fun dispatch ::
  "runtime \<Rightarrow> (string \<times> tool_spec) list \<Rightarrow> tool_call list \<Rightarrow> message list \<Rightarrow> py_exc + message list"
where
  "dispatch rt tls [] msgs = Inr msgs"
| "dispatch rt tls (call # calls) msgs =
     (case run_call rt tls call of
        Inl e \<Rightarrow> Inl e
      | Inr result \<Rightarrow>
          dispatch rt tls calls
            (msgs @ [ToolResult (call_id call) (function_name call) result]))"

definition second_request :: "agent \<Rightarrow> message list \<Rightarrow> tool_call list \<Rightarrow> request" where
  "second_request ag msgs calls =
     \<lparr>model = model_default (settings ag), messages = msgs @ [AssistantToolCalls calls],
      tools_offered = None, tool_choice = None, temperature = 2 / 10\<rparr>"

text \<open>\<^verbatim>\<open>self.memory.add("assistant", final); return final\<close>\<close>

definition finish :: "agent \<Rightarrow> string \<Rightarrow> (py_exc + string) \<times> agent" where
  "finish ag final = (Inr final, ag\<lparr>memory := add (memory ag) ''assistant'' final\<rparr>)"

text \<open>\<^verbatim>\<open>if msg.tool_calls\<close>: None and the empty list are false.\<close>

definition requested_calls :: "chat_message \<Rightarrow> tool_call list" where
  "requested_calls m = (case msg_tool_calls m of None \<Rightarrow> [] | Some cs \<Rightarrow> cs)"

definition solve :: "runtime \<Rightarrow> client \<Rightarrow> agent \<Rightarrow> string \<Rightarrow> (py_exc + string) \<times> agent" where
  "solve rt api ag question =
     (let msgs = initial_messages ag question;
          (first, ag1) = create api ag (first_request ag question)
      in case and_then first first_choice of
           Inl e \<Rightarrow> (Inl e, ag1)
         | Inr msg \<Rightarrow>
             if requested_calls msg \<noteq> [] then
               (case dispatch rt (tools ag1) (requested_calls msg) msgs of
                  Inl e \<Rightarrow> (Inl e, ag1)
                | Inr msgs' \<Rightarrow>
                    (let (second, ag2) = create api ag1 (second_request ag1 msgs' (requested_calls msg))
                     in case and_then second first_choice of
                          Inl e \<Rightarrow> (Inl e, ag2)
                        | Inr msg2 \<Rightarrow> finish ag2 (content_text msg2)))
             else finish ag1 (content_text msg))"

section \<open>Sample inputs\<close>

text \<open>
  A runtime, a configuration and four completion services on which the theorems below
  are run. The sample runtime is a table: it knows the floats 16.0, 4.0 and -1.0, one
  JSON document, and no expression outside integer arithmetic; \<open>rt_repr\<close> puts a string
  between single quotes.
\<close>

definition sample_document :: string where
  "sample_document =
     [CHR 0x7B, CHR 0x22] @ ''expression'' @ [CHR 0x22] @ '': '' @ [CHR 0x22] @ ''4'' @ [CHR 0x22] @
     '', '' @ [CHR 0x22] @ ''mode'' @ [CHR 0x22] @ '': '' @ [CHR 0x22] @ ''factorial'' @ [CHR 0x22, CHR 0x7D]"

definition sample_runtime :: runtime where
  "sample_runtime =
     \<lparr>rt_float = (\<lambda>v. if v = PStr ''16'' then Inr (FFinite 16 0)
                       else if v = PStr ''-1'' then Inr (FFinite (- 1) 0)
                       else Inl (Exc ValueError ''could not convert string to float'')),
      rt_sqrt = (\<lambda>x. if x = FFinite 16 0 then Inr (FFinite 4 0)
                      else Inl (Exc ValueError ''math domain error'')),
      rt_int_of_float = (\<lambda>x. Inl (Exc OverflowError ''cannot convert float infinity to integer'')),
      rt_str = (\<lambda>v. if v = PFloat (FFinite 4 0) then ''4.0'' else ''Ellipsis''),
      rt_repr = (\<lambda>s. [CHR 0x27] @ s @ [CHR 0x27]),
      rt_eval = (\<lambda>s. Inl (Exc SyntaxError ''invalid syntax'')),
      rt_json_loads = (\<lambda>s. if s = sample_document
                             then Inr (PDict [(''expression'', PStr ''4''), (''mode'', PStr ''factorial'')])
                             else Inl (Exc JSONDecodeError ''Expecting value''))\<rparr>"

definition sample_settings :: settings where
  "sample_settings =
     \<lparr>api_key = ''sk-test'', model_default = ''gpt-4.1'', model_fast = ''gpt-4.1-mini'',
      model_tiny = ''gpt-4.1-nano''\<rparr>"

definition sample_agent :: agent where
  "sample_agent = new_agent sample_runtime sample_settings"

text \<open>Call A arrives with a dict of arguments, call B with the text of a JSON document.\<close>

definition call_a :: tool_call where
  "call_a =
     \<lparr>call_id = ''call_a'', function_name = ''evaluate_math'',
      function_arguments = PDict [(''expression'', PStr ''3''), (''mode'', PStr ''factorial'')]\<rparr>"

definition call_b :: tool_call where
  "call_b =
     \<lparr>call_id = ''call_b'', function_name = ''evaluate_math'',
      function_arguments = PStr sample_document\<rparr>"

definition call_unknown :: tool_call where
  "call_unknown =
     \<lparr>call_id = ''call_u'', function_name = ''web_search'',
      function_arguments = PDict [(''query'', PStr ''factorial of 3'')]\<rparr>"

text \<open>Asks for calls A and B on the first request, answers in text on the second.\<close>

definition sample_client :: client where
  "sample_client sent req =
     (if sent = [] then Inr [\<lparr>msg_content = None, msg_tool_calls = Some [call_a, call_b]\<rparr>]
      else Inr [\<lparr>msg_content = Some '' 3! = 6 and 4! = 24. '', msg_tool_calls = None\<rparr>])"

text \<open>Asks for a tool that is not registered.\<close>

definition unknown_tool_client :: client where
  "unknown_tool_client sent req =
     (if sent = [] then Inr [\<lparr>msg_content = None, msg_tool_calls = Some [call_unknown]\<rparr>]
      else Inr [\<lparr>msg_content = Some ''done'', msg_tool_calls = None\<rparr>])"

text \<open>Fails on every request; fails on the second request only.\<close>

definition down_client :: client where
  "down_client sent req = Inl (Exc APIError ''Connection error.'')"

definition flaky_client :: client where
  "flaky_client sent req =
     (if sent = [] then Inr [\<lparr>msg_content = None, msg_tool_calls = Some [call_a]\<rparr>]
      else Inl (Exc APIError ''Rate limit reached''))"

definition sample_question :: string where
  "sample_question = ''What are 3! and 4!?''"

text \<open>\<open>x\<close> stands in the list strictly before an occurrence of \<open>y\<close>.\<close>

fun occurs_before :: "'a \<Rightarrow> 'a \<Rightarrow> 'a list \<Rightarrow> bool" where
  "occurs_before x y [] = False"
| "occurs_before x y (z # zs) = ((z = x \<and> y \<in> set zs) \<or> occurs_before x y zs)"

section \<open>Decimal strings\<close>

















section \<open>The math tool: mode \<^verbatim>\<open>eval\<close>\<close>

lemmas tok_simps = is_digit_def decinteger_ok_def decimal_value_def digit_val_def

lemma arith_eval_examples:
  "arith_eval ''2 + 3 * 4'' = Some (Inr (PInt 14))"
  "arith_eval ''(2+3)*4'' = Some (Inr (PInt 20))"
  "arith_eval ''1/0'' = Some (Inl (Exc ZeroDivisionError ''division by zero''))"
  by (simp_all add: arith_eval_def tok_simps eval_nat_numeral)

lemma str_int_examples: "str_int 14 = ''14''" "str_int 20 = ''20''"
  by (simp_all add: str_int_def str_nat.simps digit_char_def)

text \<open>
  Claim C6. In mode \<^verbatim>\<open>eval\<close> the tool evaluates a whitelisted expression with the usual
  precedence: \<^verbatim>\<open>2 + 3 * 4\<close> gives the string \<^verbatim>\<open>14\<close>, \<^verbatim>\<open>(2+3)*4\<close> gives \<^verbatim>\<open>20\<close>, and
  \<^verbatim>\<open>1/0\<close> gives an error string (the ZeroDivisionError is caught and returned as
  \<^verbatim>\<open>Error: division by zero\<close>), whatever the runtime does outside integer arithmetic.
\<close>

theorem eval_mode_examples:
  "evaluate_math rt (PDict [(''expression'', PStr ''2 + 3 * 4''), (''mode'', PStr ''eval'')]) = Inr ''14''
   \<and> evaluate_math rt (PDict [(''expression'', PStr ''(2+3)*4''), (''mode'', PStr ''eval'')]) = Inr ''20''
   \<and> evaluate_math rt (PDict [(''expression'', PStr ''1/0''), (''mode'', PStr ''eval'')])
       = Inr ''Error: division by zero''"
  by (simp add: evaluate_math_def allowed_def arith_eval_examples str_int_examples)

theorem eval_mode_examples_witness:
  "evaluate_math sample_runtime (PDict [(''expression'', PStr ''2 + 3 * 4''), (''mode'', PStr ''eval'')]) = Inr ''14''
   \<and> evaluate_math sample_runtime (PDict [(''expression'', PStr ''(2+3)*4''), (''mode'', PStr ''eval'')]) = Inr ''20''
   \<and> evaluate_math sample_runtime (PDict [(''expression'', PStr ''1/0''), (''mode'', PStr ''eval'')])
       = Inr ''Error: division by zero''"
  using eval_mode_examples [of sample_runtime] by simp

text \<open>
  Claim C4. When the expression is a string with at least one character outside
  \<^verbatim>\<open>0123456789+-*/(). \<close> and the mode is \<^verbatim>\<open>eval\<close>, the tool returns the
  disallowed-characters error. The expression is not evaluated: the result is the same
  for every runtime, and stays the same when the runtime's \<^verbatim>\<open>eval\<close> is replaced by any
  other function.
\<close>

theorem disallowed_characters_rejected:
  assumes "subscript rt payload ''expression'' = Inr (PStr s)"
    and "subscript rt payload ''mode'' = Inr (PStr ''eval'')"
    and "c \<in> set s" and "c \<notin> set allowed"
  shows "evaluate_math rt payload = Inr ''Error: disallowed characters''
         \<and> evaluate_math (rt\<lparr>rt_eval := ev\<rparr>) payload = Inr ''Error: disallowed characters''"
proof -
  from assms(3,4) have n: "\<not> set s \<subseteq> set allowed" by blast
  have s: "subscript (rt\<lparr>rt_eval := ev\<rparr>) payload k = subscript rt payload k" for k
    by (cases payload) (simp_all split: option.splits)
  from assms(1,2) n show ?thesis
    by (simp add: evaluate_math_def s)
qed

theorem disallowed_characters_rejected_witness:
  "CHR ''x'' \<in> set ''2*x'' \<and> CHR ''x'' \<notin> set allowed
   \<and> evaluate_math sample_runtime (PDict [(''expression'', PStr ''2*x''), (''mode'', PStr ''eval'')])
       = Inr ''Error: disallowed characters''
   \<and> evaluate_math (sample_runtime\<lparr>rt_eval := (\<lambda>s. Inr (PInt 0))\<rparr>)
        (PDict [(''expression'', PStr ''2*x''), (''mode'', PStr ''eval'')])
       = Inr ''Error: disallowed characters''"
proof -
  have a: "CHR ''x'' \<in> set ''2*x''" by simp
  have b: "CHR ''x'' \<notin> set allowed" by (simp add: allowed_def)
  have e: "subscript sample_runtime (PDict [(''expression'', PStr ''2*x''), (''mode'', PStr ''eval'')])
             ''expression'' = Inr (PStr ''2*x'')" by simp
  have m: "subscript sample_runtime (PDict [(''expression'', PStr ''2*x''), (''mode'', PStr ''eval'')])
             ''mode'' = Inr (PStr ''eval'')" by simp
  from disallowed_characters_rejected [OF e m a b, of "\<lambda>s. Inr (PInt 0)"] a b
  show ?thesis by simp
qed

section \<open>The math tool: mode \<^verbatim>\<open>factorial\<close>\<close>








section \<open>The math tool never raises on a well-formed request\<close>

text \<open>
  Claim C3, as stated, fails: the two subscripts \<^verbatim>\<open>payload["expression"]\<close> and
  \<^verbatim>\<open>payload["mode"]\<close> stand before every \<^verbatim>\<open>try\<close>, so a payload without one of the keys
  makes the tool raise KeyError; and in mode \<^verbatim>\<open>eval\<close> the set comparison stands outside
  the \<^verbatim>\<open>try\<close> too, so an expression that is not iterable raises TypeError.
\<close>

theorem evaluate_math_missing_key:
  "evaluate_math sample_runtime (PDict [(''mode'', PStr ''eval'')])
     = Inl (Exc KeyError ([CHR 0x27] @ ''expression'' @ [CHR 0x27]))
   \<and> evaluate_math sample_runtime (PDict [(''expression'', PStr ''1+1'')])
     = Inl (Exc KeyError ([CHR 0x27] @ ''mode'' @ [CHR 0x27]))
   \<and> evaluate_math sample_runtime (PDict [(''expression'', PInt 7), (''mode'', PStr ''eval'')])
     = Inl (Exc TypeError ''object is not iterable'')"
  by (simp add: evaluate_math_def sample_runtime_def)

text \<open>
  Claim C3, amended. For every payload that has both keys, with a string as the
  expression whenever the mode is \<^verbatim>\<open>eval\<close>, the tool returns a string and raises
  nothing. Whenever \<^verbatim>\<open>float\<close>, \<^verbatim>\<open>math.sqrt\<close>, \<^verbatim>\<open>int\<close> or \<^verbatim>\<open>eval\<close> raises inside a mode,
  the string is \<^verbatim>\<open>Error: \<close> followed by the exception's message, and an unknown mode gives
  \<^verbatim>\<open>Error: unknown mode\<close>.
\<close>

theorem evaluate_math_returns_string:
  assumes "subscript rt payload ''expression'' = Inr expr"
    and "subscript rt payload ''mode'' = Inr m"
    and "m = PStr ''eval'' \<longrightarrow> (\<exists>s. expr = PStr s)"
  shows "(\<exists>out. evaluate_math rt payload = Inr out)
    \<and> (m = PStr ''sqrt'' \<and> and_then (rt_float rt expr) (rt_sqrt rt) = Inl e \<longrightarrow>
         evaluate_math rt payload = Inr (''Error: '' @ exc_msg e))
    \<and> (m = PStr ''factorial'' \<and> py_int rt expr = Inl e \<longrightarrow>
         evaluate_math rt payload = Inr (''Error: '' @ exc_msg e))
    \<and> (m = PStr ''eval'' \<and> set_within_allowed expr = Inr True \<and> py_eval rt expr = Inl e \<longrightarrow>
         evaluate_math rt payload = Inr (''Error: '' @ exc_msg e))
    \<and> (m \<noteq> PStr ''sqrt'' \<and> m \<noteq> PStr ''factorial'' \<and> m \<noteq> PStr ''eval'' \<longrightarrow>
         evaluate_math rt payload = Inr ''Error: unknown mode'')"
proof (intro conjI impI)
  show "\<exists>out. evaluate_math rt payload = Inr out"
    using assms by (auto simp: evaluate_math_def)
next
  assume "m = PStr ''sqrt'' \<and> and_then (rt_float rt expr) (rt_sqrt rt) = Inl e"
  then show "evaluate_math rt payload = Inr (''Error: '' @ exc_msg e)"
    using assms(1,2) by (cases "rt_float rt expr") (auto simp: evaluate_math_def)
next
  assume "m = PStr ''factorial'' \<and> py_int rt expr = Inl e"
  then show "evaluate_math rt payload = Inr (''Error: '' @ exc_msg e)"
    using assms(1,2) by (simp add: evaluate_math_def)
next
  assume "m = PStr ''eval'' \<and> set_within_allowed expr = Inr True \<and> py_eval rt expr = Inl e"
  then show "evaluate_math rt payload = Inr (''Error: '' @ exc_msg e)"
    using assms(1,2) by (simp add: evaluate_math_def)
next
  assume "m \<noteq> PStr ''sqrt'' \<and> m \<noteq> PStr ''factorial'' \<and> m \<noteq> PStr ''eval''"
  then show "evaluate_math rt payload = Inr ''Error: unknown mode''"
    using assms(1,2) by (simp add: evaluate_math_def)
qed

theorem evaluate_math_returns_string_witness:
  "evaluate_math sample_runtime (PDict [(''expression'', PStr ''16''), (''mode'', PStr ''sqrt'')])
     = Inr ''4.0''
   \<and> evaluate_math sample_runtime (PDict [(''expression'', PStr ''-1''), (''mode'', PStr ''sqrt'')])
     = Inr ''Error: math domain error''
   \<and> evaluate_math sample_runtime (PDict [(''expression'', PList []), (''mode'', PStr ''factorial'')])
     = Inr ''Error: int() argument must be a string, a bytes-like object or a real number''
   \<and> evaluate_math sample_runtime (PDict [(''expression'', PStr ''2*''), (''mode'', PStr ''eval'')])
     = Inr ''Error: invalid syntax''
   \<and> evaluate_math sample_runtime (PDict [(''expression'', PStr ''6/3''), (''mode'', PStr ''divide'')])
     = Inr ''Error: unknown mode''"
proof -
  have a: "evaluate_math sample_runtime (PDict [(''expression'', PStr ''16''), (''mode'', PStr ''sqrt'')])
     = Inr ''4.0''"
    by (simp add: evaluate_math_def sample_runtime_def)
  have b: "evaluate_math sample_runtime (PDict [(''expression'', PStr ''-1''), (''mode'', PStr ''sqrt'')])
     = Inr ''Error: math domain error''"
    using evaluate_math_returns_string
      [of sample_runtime "PDict [(''expression'', PStr ''-1''), (''mode'', PStr ''sqrt'')]"
        "PStr ''-1''" "PStr ''sqrt''" "Exc ValueError ''math domain error''"]
    by (simp add: sample_runtime_def)
  have c: "evaluate_math sample_runtime (PDict [(''expression'', PList []), (''mode'', PStr ''factorial'')])
     = Inr ''Error: int() argument must be a string, a bytes-like object or a real number''"
    using evaluate_math_returns_string
      [of sample_runtime "PDict [(''expression'', PList []), (''mode'', PStr ''factorial'')]"
        "PList []" "PStr ''factorial''"
        "Exc TypeError ''int() argument must be a string, a bytes-like object or a real number''"]
    by simp
  have arith: "arith_eval ''2*'' = None"
    by (simp add: arith_eval_def tok_simps eval_nat_numeral)
  have d: "evaluate_math sample_runtime (PDict [(''expression'', PStr ''2*''), (''mode'', PStr ''eval'')])
     = Inr ''Error: invalid syntax''"
    using evaluate_math_returns_string
      [of sample_runtime "PDict [(''expression'', PStr ''2*''), (''mode'', PStr ''eval'')]"
        "PStr ''2*''" "PStr ''eval''" "Exc SyntaxError ''invalid syntax''"]
    by (simp add: sample_runtime_def allowed_def arith)
  have e: "evaluate_math sample_runtime (PDict [(''expression'', PStr ''6/3''), (''mode'', PStr ''divide'')])
     = Inr ''Error: unknown mode''"
    using evaluate_math_returns_string
      [of sample_runtime "PDict [(''expression'', PStr ''6/3''), (''mode'', PStr ''divide'')]"
        "PStr ''6/3''" "PStr ''divide''"]
    by simp
  from a b c d e show ?thesis by simp
qed

section \<open>The memory buffer\<close>

lemma turns_foldl_add:
  "turns (foldl (\<lambda>m rc. add m (fst rc) (snd rc)) m xs)
     = turns m @ map (\<lambda>rc. \<lparr>role = fst rc, content = snd rc\<rparr>) xs"
  by (induction xs arbitrary: m) (simp_all add: add_def)

text \<open>
  Claim C7. After \<open>N\<close> calls of \<^verbatim>\<open>Memory.add\<close> on an empty buffer, \<^verbatim>\<open>as_messages\<close>
  returns exactly \<open>N\<close> messages, in the order of the calls, each with the role and the
  content of its call. \<^verbatim>\<open>as_messages\<close> only reads: it is a function of the buffer and
  returns no new buffer, so calling it again gives the same list; and what it returned
  before further calls of \<^verbatim>\<open>add\<close> is a prefix of what it returns after them.
\<close>

theorem memory_roundtrip:
  "as_messages (foldl (\<lambda>m rc. add m (fst rc) (snd rc)) \<lparr>turns = []\<rparr> xs)
     = map (\<lambda>rc. Message (fst rc) (snd rc)) xs
   \<and> length (as_messages (foldl (\<lambda>m rc. add m (fst rc) (snd rc)) \<lparr>turns = []\<rparr> xs)) = length xs
   \<and> as_messages (foldl (\<lambda>m rc. add m (fst rc) (snd rc)) m xs)
     = as_messages m @ map (\<lambda>rc. Message (fst rc) (snd rc)) xs"
  by (simp add: as_messages_def turns_foldl_add comp_def)

theorem memory_roundtrip_witness:
  "as_messages (foldl (\<lambda>m rc. add m (fst rc) (snd rc)) \<lparr>turns = []\<rparr>
      [(''user'', ''Question to solve: 2+2?''), (''assistant'', ''4''), (''user'', ''And 3!?'')])
     = [Message ''user'' ''Question to solve: 2+2?'', Message ''assistant'' ''4'', Message ''user'' ''And 3!?'']"
  using memory_roundtrip
    [of "[(''user'', ''Question to solve: 2+2?''), (''assistant'', ''4''), (''user'', ''And 3!?'')]"
      "\<lparr>turns = []\<rparr>"]
  by (simp add: as_messages_def)

section \<open>What \<^verbatim>\<open>solve\<close> and \<^verbatim>\<open>propose_question\<close> do to the agent\<close>

lemma solve_memory_cases:
  "memory (snd (solve rt api ag q)) = memory ag
   \<or> (\<exists>final. fst (solve rt api ag q) = Inr final
        \<and> memory (snd (solve rt api ag q)) = add (memory ag) ''assistant'' final)"
  by (auto simp: solve_def create_def finish_def Let_def split: sum.splits prod.splits)

lemma solve_failure_memory:
  "fst (solve rt api ag q) = Inl e \<Longrightarrow> memory (snd (solve rt api ag q)) = memory ag"
  using solve_memory_cases [of rt api ag q] by auto

lemma solve_success_memory:
  "fst (solve rt api ag q) = Inr final \<Longrightarrow>
     memory (snd (solve rt api ag q)) = add (memory ag) ''assistant'' final"
  by (auto simp: solve_def create_def finish_def Let_def split: sum.splits prod.splits if_splits)

lemma solve_tools: "tools (snd (solve rt api ag q)) = tools ag"
  by (auto simp: solve_def create_def finish_def Let_def split: sum.splits prod.splits)

lemma propose_question_memory:
  "memory (snd (propose_question api ag)) = memory ag
   \<or> (\<exists>question. fst (propose_question api ag) = Inr question
        \<and> memory (snd (propose_question api ag))
            = add (memory ag) ''user'' (''Question to solve: '' @ question))"
  by (auto simp: propose_question_def create_def Let_def split: sum.splits prod.splits)

text \<open>
  Claim C9, as stated, fails: \<^verbatim>\<open>Memory.add\<close> takes any string as the role and appends
  the turn. No role is rejected.
\<close>

theorem add_unrecognized_role:
  "turns (add \<lparr>turns = []\<rparr> ''moderator'' ''hello'') = [\<lparr>role = ''moderator'', content = ''hello''\<rparr>]
   \<and> ''moderator'' \<notin> set [''user'', ''assistant'', ''tool'', ''system'']"
  by (simp add: add_def)

text \<open>
  Claim C9, amended. \<^verbatim>\<open>Memory.add\<close> checks nothing: for every role string it appends
  the turn with that role and content at the end of the buffer. The agent itself only
  adds the roles \<^verbatim>\<open>user\<close> (in \<^verbatim>\<open>propose_question\<close>) and \<^verbatim>\<open>assistant\<close> (in \<^verbatim>\<open>solve\<close>),
  so a buffer whose roles are all among user, assistant, tool and system stays so under
  these two operations.
\<close>

theorem add_appends_any_role:
  "turns (add m r c) = turns m @ [\<lparr>role = r, content = c\<rparr>]
   \<and> (list_all (\<lambda>t. role t \<in> set [''user'', ''assistant'', ''tool'', ''system'']) (turns (memory ag)) \<longrightarrow>
        list_all (\<lambda>t. role t \<in> set [''user'', ''assistant'', ''tool'', ''system''])
          (turns (memory (snd (solve rt api ag q))))
        \<and> list_all (\<lambda>t. role t \<in> set [''user'', ''assistant'', ''tool'', ''system''])
          (turns (memory (snd (propose_question api ag)))))"
proof (intro conjI impI)
  show "turns (add m r c) = turns m @ [\<lparr>role = r, content = c\<rparr>]"
    by (simp add: add_def)
next
  assume a: "list_all (\<lambda>t. role t \<in> set [''user'', ''assistant'', ''tool'', ''system''])
               (turns (memory ag))"
  from solve_memory_cases [of rt api ag q] a
  show "list_all (\<lambda>t. role t \<in> set [''user'', ''assistant'', ''tool'', ''system''])
          (turns (memory (snd (solve rt api ag q))))"
    by (auto simp: add_def)
  from propose_question_memory [of api ag] a
  show "list_all (\<lambda>t. role t \<in> set [''user'', ''assistant'', ''tool'', ''system''])
          (turns (memory (snd (propose_question api ag))))"
    by (auto simp: add_def)
qed

section \<open>The paths of \<^verbatim>\<open>solve\<close>\<close>

lemma second_request_sent [simp]:
  "second_request (ag\<lparr>requests_sent := rs\<rparr>) msgs calls = second_request ag msgs calls"
  by (simp add: second_request_def)

lemma solve_first_failure:
  assumes "api (requests_sent ag) (first_request ag q) = Inl e"
  shows "solve rt api ag q = (Inl e, ag\<lparr>requests_sent := requests_sent ag @ [first_request ag q]\<rparr>)"
  using assms by (simp add: solve_def create_def Let_def)

lemma solve_direct_answer:
  assumes "api (requests_sent ag) (first_request ag q) = Inr (msg # others)"
    and "requested_calls msg = []"
  shows "solve rt api ag q
           = finish (ag\<lparr>requests_sent := requests_sent ag @ [first_request ag q]\<rparr>) (content_text msg)"
  using assms by (simp add: solve_def create_def Let_def)

lemma solve_dispatch_failure:
  assumes "api (requests_sent ag) (first_request ag q) = Inr (msg # others)"
    and "requested_calls msg \<noteq> []"
    and "dispatch rt (tools ag) (requested_calls msg) (initial_messages ag q) = Inl e"
  shows "solve rt api ag q = (Inl e, ag\<lparr>requests_sent := requests_sent ag @ [first_request ag q]\<rparr>)"
  using assms by (simp add: solve_def create_def Let_def)

lemma solve_tool_path:
  assumes "api (requests_sent ag) (first_request ag q) = Inr (msg # others)"
    and "requested_calls msg \<noteq> []"
    and "dispatch rt (tools ag) (requested_calls msg) (initial_messages ag q) = Inr msgs'"
  shows "solve rt api ag q =
     (case and_then (api (requests_sent ag @ [first_request ag q])
                       (second_request ag msgs' (requested_calls msg))) first_choice of
        Inl e \<Rightarrow>
          (Inl e, ag\<lparr>requests_sent := requests_sent ag @
                      [first_request ag q, second_request ag msgs' (requested_calls msg)]\<rparr>)
      | Inr msg2 \<Rightarrow>
          finish (ag\<lparr>requests_sent := requests_sent ag @
                      [first_request ag q, second_request ag msgs' (requested_calls msg)]\<rparr>)
            (content_text msg2))"
  using assms by (simp add: solve_def create_def Let_def)

lemma dispatch_append:
  "dispatch rt tls (xs @ ys) msgs = and_then (dispatch rt tls xs msgs) (dispatch rt tls ys)"
  by (induction xs arbitrary: msgs) (simp_all split: sum.splits)

lemma dispatch_results:
  "dispatch rt tls calls msgs = Inr msgs' \<Longrightarrow>
     \<exists>results. length results = length calls
       \<and> msgs' = msgs @ map2 (\<lambda>c r. ToolResult (call_id c) (function_name c) r) calls results
       \<and> list_all2 (\<lambda>c r. run_call rt tls c = Inr r) calls results"
proof (induction calls arbitrary: msgs)
  case Nil
  then show ?case by simp
next
  case (Cons c cs)
  from Cons.prems obtain r where r: "run_call rt tls c = Inr r"
    and rest: "dispatch rt tls cs (msgs @ [ToolResult (call_id c) (function_name c) r]) = Inr msgs'"
    by (auto split: sum.splits)
  from Cons.IH [OF rest] obtain rs where rs: "length rs = length cs"
    "msgs' = (msgs @ [ToolResult (call_id c) (function_name c) r])
       @ map2 (\<lambda>c r. ToolResult (call_id c) (function_name c) r) cs rs"
    "list_all2 (\<lambda>c r. run_call rt tls c = Inr r) cs rs"
    by blast
  show ?case
    by (rule exI [of _ "r # rs"]) (use r rs in simp)
qed

section \<open>A run with two tool calls\<close>

lemma sample_agent_fields:
  "requests_sent sample_agent = []"
  "memory sample_agent = \<lparr>turns = []\<rparr>"
  "settings sample_agent = sample_settings"
  "tools sample_agent = [(''evaluate_math'', evaluate_math_spec sample_runtime)]"
  by (simp_all add: sample_agent_def new_agent_def register_tool_def evaluate_math_spec_def)

lemma sample_initial_messages:
  "initial_messages sample_agent q = [Message ''system'' sys, Message ''user'' q]"
  by (simp add: initial_messages_def as_messages_def sample_agent_fields)

lemma str_int_small: "str_int 6 = ''6''" "str_int 24 = ''24''"
  by (simp_all add: str_int_def str_nat.simps digit_char_def)

lemma sample_tool_runs:
  "evaluate_math sample_runtime (PDict [(''expression'', PStr ''3''), (''mode'', PStr ''factorial'')]) = Inr ''6''"
  "evaluate_math sample_runtime (PDict [(''expression'', PStr ''4''), (''mode'', PStr ''factorial'')]) = Inr ''24''"
  by (simp_all add: evaluate_math_def py_int_str_def py_strip_def py_isspace_def tok_simps
      math_factorial_def fact_numeral str_int_small)

lemma sample_runtime_fields:
  "rt_repr sample_runtime s = [CHR 0x27] @ s @ [CHR 0x27]"
  "rt_json_loads sample_runtime sample_document
     = Inr (PDict [(''expression'', PStr ''4''), (''mode'', PStr ''factorial'')])"
  by (simp_all add: sample_runtime_def)

lemma sample_run_calls:
  "run_call sample_runtime (tools sample_agent) call_a = Inr ''6''"
  "run_call sample_runtime (tools sample_agent) call_b = Inr ''24''"
  "run_call sample_runtime (tools sample_agent) call_unknown
     = Inl (Exc KeyError ([CHR 0x27] @ ''web_search'' @ [CHR 0x27]))"
  by (simp_all add: run_call_def decode_arguments_def call_a_def call_b_def call_unknown_def
      sample_agent_fields evaluate_math_spec_def sample_tool_runs sample_runtime_fields)

lemma sample_dispatch:
  "dispatch sample_runtime (tools sample_agent) [call_a, call_b] msgs
     = Inr (msgs @ [ToolResult ''call_a'' ''evaluate_math'' ''6'',
                    ToolResult ''call_b'' ''evaluate_math'' ''24''])"
  "dispatch sample_runtime (tools sample_agent) [call_a] msgs
     = Inr (msgs @ [ToolResult ''call_a'' ''evaluate_math'' ''6''])"
  "dispatch sample_runtime (tools sample_agent) [call_unknown] msgs
     = Inl (Exc KeyError ([CHR 0x27] @ ''web_search'' @ [CHR 0x27]))"
  by (simp_all add: sample_run_calls) (simp_all add: call_a_def call_b_def)

lemma sample_first_response:
  "sample_client (requests_sent sample_agent) (first_request sample_agent sample_question)
     = Inr [\<lparr>msg_content = None, msg_tool_calls = Some [call_a, call_b]\<rparr>]"
  by (simp add: sample_client_def sample_agent_fields)

lemma sample_solve:
  "solve sample_runtime sample_client sample_agent sample_question =
     (Inr ''3! = 6 and 4! = 24.'',
      sample_agent
        \<lparr>memory := add (memory sample_agent) ''assistant'' ''3! = 6 and 4! = 24.'',
         requests_sent :=
           [first_request sample_agent sample_question,
            second_request sample_agent
              [Message ''system'' sys, Message ''user'' sample_question,
               ToolResult ''call_a'' ''evaluate_math'' ''6'',
               ToolResult ''call_b'' ''evaluate_math'' ''24'']
              [call_a, call_b]]\<rparr>)"
  by (subst solve_tool_path
      [where api = sample_client and ag = sample_agent and q = sample_question and rt = sample_runtime
        and msg = "\<lparr>msg_content = None, msg_tool_calls = Some [call_a, call_b]\<rparr>" and others = "[]"
        and msgs' = "[Message ''system'' sys, Message ''user'' sample_question,
               ToolResult ''call_a'' ''evaluate_math'' ''6'',
               ToolResult ''call_b'' ''evaluate_math'' ''24'']"])
    (simp_all add: sample_first_response requested_calls_def sample_dispatch
      sample_initial_messages sample_agent_fields(1-3)
      sample_client_def finish_def content_text_def py_strip_def py_isspace_def
      del: dispatch.simps)

theorem add_appends_any_role_witness:
  "turns (add \<lparr>turns = []\<rparr> ''user'' ''hi'') = [\<lparr>role = ''user'', content = ''hi''\<rparr>]
   \<and> list_all (\<lambda>t. role t \<in> set [''user'', ''assistant'', ''tool'', ''system''])
        (turns (memory (snd (solve sample_runtime sample_client sample_agent sample_question))))
   \<and> list_all (\<lambda>t. role t \<in> set [''user'', ''assistant'', ''tool'', ''system''])
        (turns (memory (snd (propose_question sample_client sample_agent))))"
proof -
  have h: "list_all (\<lambda>t. role t \<in> set [''user'', ''assistant'', ''tool'', ''system''])
             (turns (memory sample_agent))"
    by (simp add: sample_agent_fields)
  from add_appends_any_role
    [where m = "\<lparr>turns = []\<rparr>" and r = "''user''" and c = "''hi''" and ag = sample_agent
      and rt = sample_runtime and api = sample_client and q = sample_question] h
  show ?thesis by simp
qed

text \<open>
  Claim C8. A call of \<^verbatim>\<open>solve\<close> that returns a final answer leaves the memory buffer
  with exactly one more turn, at the end, of role \<^verbatim>\<open>assistant\<close> and with the returned
  answer as content. The tool-result turns of the dispatch loop are not in the buffer:
  they only went into the message list of the call. The tool registry is unchanged.
\<close>

theorem solve_appends_final_answer:
  assumes "solve rt api ag q = (Inr final, ag')"
  shows "turns (memory ag') = turns (memory ag) @ [\<lparr>role = ''assistant'', content = final\<rparr>]
         \<and> tools ag' = tools ag"
proof -
  from assms have "fst (solve rt api ag q) = Inr final" and s: "ag' = snd (solve rt api ag q)"
    by simp_all
  then have "memory ag' = add (memory ag) ''assistant'' final"
    using solve_success_memory by blast
  then show ?thesis
    by (simp add: add_def s solve_tools)
qed

theorem solve_appends_final_answer_witness:
  "fst (solve sample_runtime sample_client sample_agent sample_question) = Inr ''3! = 6 and 4! = 24.''
   \<and> turns (memory (snd (solve sample_runtime sample_client sample_agent sample_question)))
     = turns (memory sample_agent) @ [\<lparr>role = ''assistant'', content = ''3! = 6 and 4! = 24.''\<rparr>]
   \<and> tools (snd (solve sample_runtime sample_client sample_agent sample_question)) = tools sample_agent"
proof -
  have run: "solve sample_runtime sample_client sample_agent sample_question
    = (Inr ''3! = 6 and 4! = 24.'', snd (solve sample_runtime sample_client sample_agent sample_question))"
    by (simp add: sample_solve)
  from solve_appends_final_answer [OF run] show ?thesis
    by (simp add: sample_solve)
qed

section \<open>The messages of the second pass\<close>

text \<open>
  When the first response asks for tool calls and every call is dispatched, the request
  of the second pass is sent with these messages: the initial messages, then one
  tool-result turn per call in the order of the calls, then the assistant turn that
  carries the calls.
\<close>

theorem second_pass_messages:
  assumes "api (requests_sent ag) (first_request ag q) = Inr (msg # others)"
    and "requested_calls msg = calls" and "calls \<noteq> []"
    and "dispatch rt (tools ag) calls (initial_messages ag q) = Inr msgs'"
  shows "requests_sent (snd (solve rt api ag q))
           = requests_sent ag @ [first_request ag q, second_request ag msgs' calls]
    \<and> (\<exists>results. length results = length calls
          \<and> list_all2 (\<lambda>c r. run_call rt (tools ag) c = Inr r) calls results
          \<and> messages (second_request ag msgs' calls)
              = initial_messages ag q
                @ map2 (\<lambda>c r. ToolResult (call_id c) (function_name c) r) calls results
                @ [AssistantToolCalls calls])"
proof
  have c: "requested_calls msg \<noteq> []"
    using assms(2,3) by simp
  have d: "dispatch rt (tools ag) (requested_calls msg) (initial_messages ag q) = Inr msgs'"
    using assms(2,4) by simp
  have "solve rt api ag q =
     (case and_then (api (requests_sent ag @ [first_request ag q])
                       (second_request ag msgs' calls)) first_choice of
        Inl e \<Rightarrow>
          (Inl e, ag\<lparr>requests_sent := requests_sent ag @
                      [first_request ag q, second_request ag msgs' calls]\<rparr>)
      | Inr msg2 \<Rightarrow>
          finish (ag\<lparr>requests_sent := requests_sent ag @
                      [first_request ag q, second_request ag msgs' calls]\<rparr>)
            (content_text msg2))"
    using solve_tool_path [of api ag q msg others rt msgs', OF assms(1) c d]
    unfolding assms(2) .
  then show "requests_sent (snd (solve rt api ag q))
           = requests_sent ag @ [first_request ag q, second_request ag msgs' calls]"
    by (simp add: finish_def split: sum.splits)
next
  from dispatch_results [OF assms(4)]
  show "\<exists>results. length results = length calls
          \<and> list_all2 (\<lambda>c r. run_call rt (tools ag) c = Inr r) calls results
          \<and> messages (second_request ag msgs' calls)
              = initial_messages ag q
                @ map2 (\<lambda>c r. ToolResult (call_id c) (function_name c) r) calls results
                @ [AssistantToolCalls calls]"
    by (auto simp: second_request_def)
qed

theorem second_pass_messages_witness:
  "requests_sent (snd (solve sample_runtime sample_client sample_agent sample_question))
     = [first_request sample_agent sample_question,
        second_request sample_agent
          [Message ''system'' sys, Message ''user'' sample_question,
           ToolResult ''call_a'' ''evaluate_math'' ''6'',
           ToolResult ''call_b'' ''evaluate_math'' ''24'']
          [call_a, call_b]]"
proof -
  have d: "dispatch sample_runtime (tools sample_agent) [call_a, call_b]
             (initial_messages sample_agent sample_question)
           = Inr [Message ''system'' sys, Message ''user'' sample_question,
                  ToolResult ''call_a'' ''evaluate_math'' ''6'',
                  ToolResult ''call_b'' ''evaluate_math'' ''24'']"
    by (simp add: sample_dispatch sample_initial_messages del: dispatch.simps)
  have c: "requested_calls \<lparr>msg_content = None, msg_tool_calls = Some [call_a, call_b]\<rparr>
             = [call_a, call_b]"
    by (simp add: requested_calls_def)
  have n: "[call_a, call_b] \<noteq> []" by simp
  from second_pass_messages
    [of sample_client sample_agent sample_question
      "\<lparr>msg_content = None, msg_tool_calls = Some [call_a, call_b]\<rparr>" "[]" "[call_a, call_b]"
      sample_runtime, OF sample_first_response c n d]
  show ?thesis by (simp add: sample_agent_fields(1))
qed

text \<open>
  Claim C2. On the sample run with the calls A then B, the message list of the second
  pass holds the result turn of A before the result turn of B, as the claim says, but the
  assistant turn that carries the tool calls is the last message: it stands before
  neither result turn. The claim asks for it before both, which is also what the
  completion service requires of a transcript.
\<close>

theorem assistant_turn_follows_results:
  "messages (last (requests_sent (snd (solve sample_runtime sample_client sample_agent sample_question))))
     = [Message ''system'' sys, Message ''user'' sample_question,
        ToolResult ''call_a'' ''evaluate_math'' ''6'',
        ToolResult ''call_b'' ''evaluate_math'' ''24'',
        AssistantToolCalls [call_a, call_b]]
   \<and> \<not> occurs_before (AssistantToolCalls [call_a, call_b])
         (ToolResult ''call_a'' ''evaluate_math'' ''6'')
         (messages (last (requests_sent
            (snd (solve sample_runtime sample_client sample_agent sample_question)))))
   \<and> \<not> occurs_before (AssistantToolCalls [call_a, call_b])
         (ToolResult ''call_b'' ''evaluate_math'' ''24'')
         (messages (last (requests_sent
            (snd (solve sample_runtime sample_client sample_agent sample_question)))))"
  by (simp add: sample_solve second_request_def)

section \<open>Failures of the completion service\<close>

text \<open>
  Claim C10. When the first completion call raises, \<^verbatim>\<open>solve\<close> raises the same
  exception and the memory buffer is as before; when the first call asks for tool calls,
  the dispatch succeeds and the second completion call raises, the same holds. More
  generally, whenever \<^verbatim>\<open>solve\<close> raises, the memory buffer is unchanged.
\<close>

theorem solve_completion_failure:
  "(api (requests_sent ag) (first_request ag q) = Inl e \<longrightarrow>
      fst (solve rt api ag q) = Inl e \<and> memory (snd (solve rt api ag q)) = memory ag)
   \<and> (api (requests_sent ag) (first_request ag q) = Inr (msg # others)
       \<and> requested_calls msg \<noteq> []
       \<and> dispatch rt (tools ag) (requested_calls msg) (initial_messages ag q) = Inr msgs'
       \<and> api (requests_sent ag @ [first_request ag q])
            (second_request ag msgs' (requested_calls msg)) = Inl e \<longrightarrow>
      fst (solve rt api ag q) = Inl e \<and> memory (snd (solve rt api ag q)) = memory ag)
   \<and> (fst (solve rt api ag q) = Inl e \<longrightarrow> memory (snd (solve rt api ag q)) = memory ag)"
proof (intro conjI impI)
  assume "api (requests_sent ag) (first_request ag q) = Inl e"
  from solve_first_failure [of api ag q e rt] this
  show "fst (solve rt api ag q) = Inl e" and "memory (snd (solve rt api ag q)) = memory ag"
    by simp_all
next
  assume a: "api (requests_sent ag) (first_request ag q) = Inr (msg # others)
       \<and> requested_calls msg \<noteq> []
       \<and> dispatch rt (tools ag) (requested_calls msg) (initial_messages ag q) = Inr msgs'
       \<and> api (requests_sent ag @ [first_request ag q])
            (second_request ag msgs' (requested_calls msg)) = Inl e"
  then have "solve rt api ag q =
      (Inl e, ag\<lparr>requests_sent := requests_sent ag @
                  [first_request ag q, second_request ag msgs' (requested_calls msg)]\<rparr>)"
    using solve_tool_path [of api ag q msg others rt msgs'] by simp
  then show "fst (solve rt api ag q) = Inl e" and "memory (snd (solve rt api ag q)) = memory ag"
    by simp_all
next
  assume "fst (solve rt api ag q) = Inl e"
  then show "memory (snd (solve rt api ag q)) = memory ag"
    by (rule solve_failure_memory)
qed

theorem solve_completion_failure_witness:
  "fst (solve sample_runtime down_client sample_agent sample_question)
     = Inl (Exc APIError ''Connection error.'')
   \<and> memory (snd (solve sample_runtime down_client sample_agent sample_question)) = memory sample_agent
   \<and> fst (solve sample_runtime flaky_client sample_agent sample_question)
     = Inl (Exc APIError ''Rate limit reached'')
   \<and> memory (snd (solve sample_runtime flaky_client sample_agent sample_question)) = memory sample_agent"
proof -
  have a: "down_client (requests_sent sample_agent) (first_request sample_agent sample_question)
             = Inl (Exc APIError ''Connection error.'')"
    by (simp add: down_client_def)
  have b1: "flaky_client (requests_sent sample_agent) (first_request sample_agent sample_question)
             = Inr [\<lparr>msg_content = None, msg_tool_calls = Some [call_a]\<rparr>]"
    by (simp add: flaky_client_def sample_agent_fields)
  have b2: "requested_calls \<lparr>msg_content = None, msg_tool_calls = Some [call_a]\<rparr> \<noteq> []"
    by (simp add: requested_calls_def)
  have b3: "dispatch sample_runtime (tools sample_agent)
              (requested_calls \<lparr>msg_content = None, msg_tool_calls = Some [call_a]\<rparr>)
              (initial_messages sample_agent sample_question)
            = Inr [Message ''system'' sys, Message ''user'' sample_question,
                   ToolResult ''call_a'' ''evaluate_math'' ''6'']"
    by (simp add: requested_calls_def sample_dispatch sample_initial_messages del: dispatch.simps)
  have b4: "flaky_client (requests_sent sample_agent @ [first_request sample_agent sample_question])
              (second_request sample_agent
                 [Message ''system'' sys, Message ''user'' sample_question,
                  ToolResult ''call_a'' ''evaluate_math'' ''6'']
                 (requested_calls \<lparr>msg_content = None, msg_tool_calls = Some [call_a]\<rparr>))
            = Inl (Exc APIError ''Rate limit reached'')"
    by (simp add: flaky_client_def)
  from solve_completion_failure
    [where api = down_client and ag = sample_agent and q = sample_question
      and rt = sample_runtime and e = "Exc APIError ''Connection error.''"] a
  have first: "fst (solve sample_runtime down_client sample_agent sample_question)
     = Inl (Exc APIError ''Connection error.'')
   \<and> memory (snd (solve sample_runtime down_client sample_agent sample_question)) = memory sample_agent"
    by blast
  from solve_completion_failure
    [where api = flaky_client and ag = sample_agent and q = sample_question
      and rt = sample_runtime and e = "Exc APIError ''Rate limit reached''"
      and msg = "\<lparr>msg_content = None, msg_tool_calls = Some [call_a]\<rparr>" and others = "[]"
      and msgs' = "[Message ''system'' sys, Message ''user'' sample_question,
                  ToolResult ''call_a'' ''evaluate_math'' ''6'']"] b1 b2 b3 b4
  have second: "fst (solve sample_runtime flaky_client sample_agent sample_question)
     = Inl (Exc APIError ''Rate limit reached'')
   \<and> memory (snd (solve sample_runtime flaky_client sample_agent sample_question)) = memory sample_agent"
    by blast
  from first second show ?thesis by simp
qed

section \<open>A tool name that is not registered\<close>

text \<open>
  Claim C1, as stated, fails: when the first response asks for a tool that is not a key
  of the registry, \<^verbatim>\<open>self.tools[name]\<close> raises KeyError, nothing catches it, and
  \<^verbatim>\<open>solve\<close> raises. No result turn is produced and no second request is sent.
\<close>

theorem unknown_tool_raises:
  "fst (solve sample_runtime unknown_tool_client sample_agent sample_question)
     = Inl (Exc KeyError ([CHR 0x27] @ ''web_search'' @ [CHR 0x27]))
   \<and> requests_sent (snd (solve sample_runtime unknown_tool_client sample_agent sample_question))
     = [first_request sample_agent sample_question]
   \<and> memory (snd (solve sample_runtime unknown_tool_client sample_agent sample_question))
     = memory sample_agent"
proof -
  have a: "unknown_tool_client (requests_sent sample_agent) (first_request sample_agent sample_question)
             = Inr [\<lparr>msg_content = None, msg_tool_calls = Some [call_unknown]\<rparr>]"
    by (simp add: unknown_tool_client_def sample_agent_fields)
  have b: "requested_calls \<lparr>msg_content = None, msg_tool_calls = Some [call_unknown]\<rparr> \<noteq> []"
    by (simp add: requested_calls_def)
  have c: "dispatch sample_runtime (tools sample_agent)
              (requested_calls \<lparr>msg_content = None, msg_tool_calls = Some [call_unknown]\<rparr>)
              (initial_messages sample_agent sample_question)
            = Inl (Exc KeyError ([CHR 0x27] @ ''web_search'' @ [CHR 0x27]))"
    by (simp add: requested_calls_def sample_dispatch del: dispatch.simps)
  from solve_dispatch_failure
    [of unknown_tool_client sample_agent sample_question
      "\<lparr>msg_content = None, msg_tool_calls = Some [call_unknown]\<rparr>" "[]" sample_runtime, OF a b c]
  show ?thesis by (simp add: sample_agent_fields)
qed

text \<open>
  Claim C1, amended. A call whose tool is registered, whose arguments decode and whose
  handler returns a string gets a tool-result turn with that string, appended to the
  message list. A call that names an unregistered tool (its arguments decoding, the calls
  before it dispatched) makes \<^verbatim>\<open>solve\<close> raise KeyError with the name: the only request
  sent is the first one, and the rest of the agent is unchanged.
\<close>

theorem unknown_tool_propagates:
  "(map_of tls (function_name c) = Some spec
      \<and> decode_arguments rt (function_arguments c) = Inr parsed
      \<and> handler spec parsed = Inr result \<longrightarrow>
      dispatch rt tls (c # cs) msgs
        = dispatch rt tls cs (msgs @ [ToolResult (call_id c) (function_name c) result]))
   \<and> (api (requests_sent ag) (first_request ag q) = Inr (msg # others)
      \<and> requested_calls msg = pre @ c # post
      \<and> dispatch rt (tools ag) pre (initial_messages ag q) = Inr msgs_pre
      \<and> decode_arguments rt (function_arguments c) = Inr parsed
      \<and> map_of (tools ag) (function_name c) = None \<longrightarrow>
      solve rt api ag q
        = (Inl (Exc KeyError (rt_repr rt (function_name c))),
           ag\<lparr>requests_sent := requests_sent ag @ [first_request ag q]\<rparr>))"
proof (intro conjI impI)
  assume "map_of tls (function_name c) = Some spec
      \<and> decode_arguments rt (function_arguments c) = Inr parsed
      \<and> handler spec parsed = Inr result"
  then show "dispatch rt tls (c # cs) msgs
        = dispatch rt tls cs (msgs @ [ToolResult (call_id c) (function_name c) result])"
    by (simp add: run_call_def)
next
  assume a: "api (requests_sent ag) (first_request ag q) = Inr (msg # others)
      \<and> requested_calls msg = pre @ c # post
      \<and> dispatch rt (tools ag) pre (initial_messages ag q) = Inr msgs_pre
      \<and> decode_arguments rt (function_arguments c) = Inr parsed
      \<and> map_of (tools ag) (function_name c) = None"
  then have r: "run_call rt (tools ag) c = Inl (Exc KeyError (rt_repr rt (function_name c)))"
    by (simp add: run_call_def)
  have "dispatch rt (tools ag) (pre @ c # post) (initial_messages ag q)
          = Inl (Exc KeyError (rt_repr rt (function_name c)))"
    using a r by (simp add: dispatch_append)
  with a show "solve rt api ag q
        = (Inl (Exc KeyError (rt_repr rt (function_name c))),
           ag\<lparr>requests_sent := requests_sent ag @ [first_request ag q]\<rparr>)"
    using solve_dispatch_failure [of api ag q msg others rt] by simp
qed

theorem unknown_tool_propagates_witness:
  "dispatch sample_runtime (tools sample_agent) [call_a] []
     = Inr [ToolResult ''call_a'' ''evaluate_math'' ''6'']
   \<and> solve sample_runtime unknown_tool_client sample_agent sample_question
     = (Inl (Exc KeyError ([CHR 0x27] @ ''web_search'' @ [CHR 0x27])),
        sample_agent\<lparr>requests_sent := [first_request sample_agent sample_question]\<rparr>)"
proof -
  have k: "map_of (tools sample_agent) (function_name call_a) = Some (evaluate_math_spec sample_runtime)"
    "decode_arguments sample_runtime (function_arguments call_a)
       = Inr (PDict [(''expression'', PStr ''3''), (''mode'', PStr ''factorial'')])"
    "handler (evaluate_math_spec sample_runtime)
       (PDict [(''expression'', PStr ''3''), (''mode'', PStr ''factorial'')]) = Inr ''6''"
    by (simp_all add: sample_agent_fields call_a_def decode_arguments_def evaluate_math_spec_def
        sample_tool_runs)
  from unknown_tool_propagates
    [where tls = "tools sample_agent" and c = call_a and spec = "evaluate_math_spec sample_runtime"
      and rt = sample_runtime
      and parsed = "PDict [(''expression'', PStr ''3''), (''mode'', PStr ''factorial'')]"
      and result = "''6''" and cs = "[]" and msgs = "[]"] k
  have first: "dispatch sample_runtime (tools sample_agent) [call_a] []
     = Inr [ToolResult ''call_a'' ''evaluate_math'' ''6'']"
    by (simp add: call_a_def)
  have u: "unknown_tool_client (requests_sent sample_agent) (first_request sample_agent sample_question)
             = Inr [\<lparr>msg_content = None, msg_tool_calls = Some [call_unknown]\<rparr>]"
    "requested_calls \<lparr>msg_content = None, msg_tool_calls = Some [call_unknown]\<rparr>
       = [] @ call_unknown # []"
    "dispatch sample_runtime (tools sample_agent) [] (initial_messages sample_agent sample_question)
       = Inr (initial_messages sample_agent sample_question)"
    "decode_arguments sample_runtime (function_arguments call_unknown)
       = Inr (PDict [(''query'', PStr ''factorial of 3'')])"
    "map_of (tools sample_agent) (function_name call_unknown) = None"
    by (simp_all add: unknown_tool_client_def sample_agent_fields requested_calls_def
        decode_arguments_def call_unknown_def)
  from unknown_tool_propagates
    [where api = unknown_tool_client and ag = sample_agent and q = sample_question
      and rt = sample_runtime and c = call_unknown
      and msg = "\<lparr>msg_content = None, msg_tool_calls = Some [call_unknown]\<rparr>" and others = "[]"
      and pre = "[]" and post = "[]" and msgs_pre = "initial_messages sample_agent sample_question"
      and parsed = "PDict [(''query'', PStr ''factorial of 3'')]"] u
  have second: "solve sample_runtime unknown_tool_client sample_agent sample_question
     = (Inl (Exc KeyError (rt_repr sample_runtime (function_name call_unknown))),
        sample_agent\<lparr>requests_sent :=
          requests_sent sample_agent @ [first_request sample_agent sample_question]\<rparr>)"
    by blast
  from first second show ?thesis
    by (simp add: sample_runtime_fields sample_agent_fields(1) call_unknown_def)
qed

end
